theory Spec2Isabelle
  imports
    Complex_Main
    "HOL-Library.Multiset"
    "HOL-Library.Sublist"
    "HOL-Library.Char_ord"
    "HOL-Library.List_Lexorder"
begin

section \<open>Data model of \<^verbatim>\<open>app.py\<close>\<close>

text \<open>
  The program of \<^verbatim>\<open>src/app.py\<close> works on pandas data frames. A frame is modelled by
  the list of its column labels and the list of its rows; a row is a typed record whose
  fields are the columns the program reads. A cell that pandas holds as NaN (a value
  missing from the JSON document) is \<open>None\<close>; the key columns (\<^verbatim>\<open>state\<close>,
  \<^verbatim>\<open>state_name\<close>, \<^verbatim>\<open>county_name\<close>) hold strings. Reading a column that is not among the
  labels raises in pandas, which is a branch of the model (\<open>Inl\<close>).

  Death counts are integers; the rate the program derives from a count by
  \<^verbatim>\<open>astype(float)\<close> is the real number of the same value (floats represent integers
  below \<open>2^53\<close> exactly, and so the halves that a median of two of them can be).
  Strings are compared byte by byte, which on ASCII text is Python's order.
  The pandas operations follow the documented behaviour of the 1.x releases the program
  was written for: \<^verbatim>\<open>drop(labels, 1)\<close> drops columns and raises on an absent label, a right
  merge keeps the order of the right frame, \<^verbatim>\<open>groupby\<close> sorts the group keys, and
  \<^verbatim>\<open>sum\<close> skips NaN.
\<close>

datatype py_error =
    KeyError string
  | TypeError
  | AttributeError string
  | ValueError

record 'r frame =
  columns :: "string list"
  rows :: "'r list"

text \<open>One row of the state data set (\<^verbatim>\<open>STATE_ENDPOINT\<close>).\<close>

record state_record =
  state :: string
  age_group :: "string option"
  covid_19_deaths :: "int option"
  total_deaths :: "int option"
  pneumonia_deaths :: "int option"
  pneumonia_and_covid_19_deaths :: "int option"
  influenza_deaths :: "int option"
  pneumonia_influenza_or_covid :: "int option"

text \<open>One row of the county data set (\<^verbatim>\<open>COUNTY_ENDPOINT\<close>).\<close>

record county_record =
  state_name :: string
  county_name :: string
  covid_death :: "int option"

text \<open>
  One value of \<^verbatim>\<open>bokeh.sampledata.us_counties.data\<close>. The dictionary key \<^verbatim>\<open>'state'\<close> is
  the field \<open>geo_state\<close> here, since \<open>state\<close> already names the column of the state data.
\<close>

record county_geometry =
  name :: string
  detailed_name :: string
  geo_state :: string
  lats :: "real list"
  lons :: "real list"

definition STATE_FIGURES :: "string list" where
  "STATE_FIGURES =
     [''covid_19_deaths'', ''total_deaths'', ''pneumonia_deaths'',
      ''pneumonia_and_covid_19_deaths'', ''influenza_deaths'',
      ''pneumonia_influenza_or_covid'']"

definition AGE_GROUPS :: "string list" where
  "AGE_GROUPS =
     [''Under 1 year'', ''1-4 years'', ''5-14 years'', ''15-24 years'',
      ''25-34 years'', ''35-44 years'', ''45-54 years'', ''55-64 years'',
      ''65-74 years'', ''75-84 years'', ''85 years and over'']"

text \<open>The column of a state row that a label of \<open>STATE_FIGURES\<close> selects.\<close>

definition state_figure :: "string \<Rightarrow> state_record \<Rightarrow> int option" where
  "state_figure c r =
     (if c = ''covid_19_deaths'' then covid_19_deaths r
      else if c = ''total_deaths'' then total_deaths r
      else if c = ''pneumonia_deaths'' then pneumonia_deaths r
      else if c = ''pneumonia_and_covid_19_deaths'' then pneumonia_and_covid_19_deaths r
      else if c = ''influenza_deaths'' then influenza_deaths r
      else if c = ''pneumonia_influenza_or_covid'' then pneumonia_influenza_or_covid r
      else None)"

section \<open>String and list operations of Python, pandas and numpy\<close>

text \<open>\<^verbatim>\<open>s.startswith(pat)\<close>.\<close>

fun startswith :: "string \<Rightarrow> string \<Rightarrow> bool" where
  "startswith [] s = True"
| "startswith (p # ps) [] = False"
| "startswith (p # ps) (c # cs) = (p = c \<and> startswith ps cs)"

text \<open>
  \<^verbatim>\<open>Series.str.contains(pat)\<close> for a pattern without regular-expression operators,
  as \<^verbatim>\<open>"Total"\<close> is: the pattern occurs somewhere in the string.
\<close>

fun str_contains :: "string \<Rightarrow> string \<Rightarrow> bool" where
  "str_contains pat [] = (pat = [])"
| "str_contains pat (c # cs) = (startswith pat (c # cs) \<or> str_contains pat cs)"

text \<open>\<^verbatim>\<open>str.lower()\<close> on ASCII text: the letters A to Z are mapped, every other byte is kept.\<close>

definition lower_char :: "char \<Rightarrow> char" where
  "lower_char c =
     (case map_of (zip ''ABCDEFGHIJKLMNOPQRSTUVWXYZ'' ''abcdefghijklmnopqrstuvwxyz'') c of
        Some d \<Rightarrow> d
      | None \<Rightarrow> c)"

definition lower :: "string \<Rightarrow> string" where
  "lower s = map lower_char s"

text \<open>\<^verbatim>\<open>x.split(',')[0]\<close>: the text before the first comma (all of it when there is none).\<close>

definition county_key :: "county_geometry \<Rightarrow> string" where
  "county_key g = takeWhile (\<lambda>c. c \<noteq> CHR '','') (detailed_name g)"

text \<open>\<^verbatim>\<open>Series.unique()\<close>: the distinct values in the order of their first appearance.\<close>

fun unique :: "'a list \<Rightarrow> 'a list" where
  "unique [] = []"
| "unique (v # vs) = v # unique (filter (\<lambda>w. w \<noteq> v) vs)"

text \<open>\<^verbatim>\<open>Series.sum()\<close> of a column: NaN cells are skipped, an empty sum is 0.\<close>

definition nansum :: "int option list \<Rightarrow> int" where
  "nansum vs = sum_list (map (\<lambda>v. case v of None \<Rightarrow> 0 | Some n \<Rightarrow> n) vs)"

text \<open>
  \<^verbatim>\<open>numpy.median\<close> of a non-empty sequence: the middle element of the sorted sequence,
  or the mean of the two middle elements when the length is even.
\<close>

definition median :: "real list \<Rightarrow> real" where
  "median vs =
     (let s = sort vs; n = length vs in
      if n mod 2 = 1 then s ! (n div 2)
      else (s ! (n div 2 - 1) + s ! (n div 2)) / 2)"

text \<open>Python's \<^verbatim>\<open>max\<close> of a sequence; it raises \<^verbatim>\<open>ValueError\<close> on an empty one.\<close>

fun py_max :: "real list \<Rightarrow> py_error + real" where
  "py_max [] = Inl ValueError"
| "py_max (v # vs) = Inr (fold max vs v)"

section \<open>The county join: \<^verbatim>\<open>deaths_by_county\<close>\<close>

text \<open>
  The inner function \<^verbatim>\<open>filter_state\<close>: the first item of the dictionary, or \<^verbatim>\<open>None\<close>
  when the dictionary is empty. A dictionary is the list of its items in order.
\<close>

definition filter_state :: "(string \<times> string) list \<Rightarrow> (string \<times> string) option" where
  "filter_state mapped = (case mapped of [] \<Rightarrow> None | kv # _ \<Rightarrow> Some kv)"

text \<open>
  \<^verbatim>\<open>pd.merge(left, right, left_on='county_name', right_on='county_key', how='right')\<close>:
  every row of the right frame, in the right frame's order, once for each left row with
  the same key, and once with the left columns empty when no left row has the key.
\<close>

definition merge_right ::
  "county_record list \<Rightarrow> county_geometry list \<Rightarrow> (county_record option \<times> county_geometry) list"
where
  "merge_right left right =
     concat (map (\<lambda>g.
       (let matches = filter (\<lambda>r. county_name r = county_key g) left
        in if matches = [] then [(None, g)] else map (\<lambda>r. (Some r, g)) matches)) right)"

text \<open>
  The column \<^verbatim>\<open>covid_death\<close> of a merged row after \<^verbatim>\<open>fillna(0)\<close> and
  \<^verbatim>\<open>astype(float)\<close>: a missing left row and a missing count both give 0.
\<close>

definition rate_of :: "county_record option \<times> county_geometry \<Rightarrow> real" where
  "rate_of m =
     (case fst m of
        None \<Rightarrow> 0
      | Some r \<Rightarrow> (case covid_death r of None \<Rightarrow> 0 | Some n \<Rightarrow> real_of_int n))"

text \<open>
  The figure that \<^verbatim>\<open>deaths_by_county\<close> returns: its title, the data dictionary of the
  patches (\<^verbatim>\<open>x\<close>, \<^verbatim>\<open>y\<close>, \<^verbatim>\<open>name\<close>, \<^verbatim>\<open>rate\<close>, under the names of the local variables
  that hold them) and the two ends of the colour mapper.
\<close>

record county_figure =
  county_title :: string
  county_xs :: "real list list"
  county_ys :: "real list list"
  county_names :: "string list"
  county_rates :: "real list"
  low :: real
  high :: real

text \<open>
  The body of the \<^verbatim>\<open>try\<close> block. \<open>state_mapping\<close> (imported from the package) and
  \<open>county_data\<close> (the bokeh sample data) are module-level tables of the source and are
  parameters here, each as the list of its items. The source's local \<^verbatim>\<open>state_name\<close> (the
  display name found in the mapping) is \<open>target_name\<close>, since \<open>state_name\<close> names the
  column of the county data. A column of the county data that is also a column of the
  geometry frame gets a suffix in the merge, so that reading it by its plain name raises.
  The bokeh constructors are taken to build the figure from the values they are given.
\<close>

definition deaths_by_county_try ::
  "(string \<times> string) list \<Rightarrow> county_geometry list \<Rightarrow> county_record frame \<Rightarrow> string
     \<Rightarrow> py_error + county_figure"
where
  "deaths_by_county_try state_mapping county_data data target =
     (let mapped = filter (\<lambda>(code, nm). nm = target) state_mapping in
      case filter_state mapped of
        None \<Rightarrow> Inl TypeError
      | Some (state_code, target_name) \<Rightarrow>
          if ''state_name'' \<notin> set (columns data) then Inl (KeyError ''state_name'')
          else
            let df_state = filter (\<lambda>r. state_name r = state_code) (rows data) in
            if \<not> set [''data_as_of'', ''start_week'', ''end_week''] \<subseteq> set (columns data)
            then Inl (KeyError ''data_as_of, start_week, end_week'')
            else
              let counties = filter (\<lambda>g. geo_state g = lower state_code) county_data in
              if counties = [] then Inl (KeyError ''detailed name'')
              else if ''county_name'' \<notin> set (columns data) then Inl (KeyError ''county_name'')
              else
                let df_merged = merge_right df_state counties in
                if ''covid_death'' \<notin> set (columns data) then Inl (AttributeError ''covid_death'')
                else if ''lons'' \<in> set (columns data) then Inl (AttributeError ''lons'')
                else if ''lats'' \<in> set (columns data) then Inl (AttributeError ''lats'')
                else if ''name'' \<in> set (columns data) then Inl (AttributeError ''name'')
                else
                  let xs = map (\<lambda>m. lons (snd m)) df_merged;
                      ys = map (\<lambda>m. lats (snd m)) df_merged;
                      names = map (\<lambda>m. name (snd m)) df_merged;
                      rates = map rate_of df_merged
                  in case py_max rates of
                       Inl e \<Rightarrow> Inl e
                     | Inr hi \<Rightarrow>
                         Inr \<lparr>county_title = target_name @ '' - Covid Deaths'',
                              county_xs = xs, county_ys = ys, county_names = names,
                              county_rates = rates, low = median rates, high = hi\<rparr>)"

text \<open>
  What \<^verbatim>\<open>deaths_by_county\<close> returns: the figure, or the pair \<^verbatim>\<open>(None, None)\<close> of the
  \<^verbatim>\<open>except Exception\<close> branch.
\<close>

datatype county_result = Figure county_figure | NonePair

definition deaths_by_county ::
  "(string \<times> string) list \<Rightarrow> county_geometry list \<Rightarrow> county_record frame \<Rightarrow> string
     \<Rightarrow> county_result"
where
  "deaths_by_county state_mapping county_data data target =
     (case deaths_by_county_try state_mapping county_data data target of
        Inl e \<Rightarrow> NonePair
      | Inr p \<Rightarrow> Figure p)"

section \<open>The cohort table: \<^verbatim>\<open>age_by_state\<close>\<close>

text \<open>
  The figure of \<^verbatim>\<open>age_by_state\<close>: its title and the factors of its x axis. The bars are
  drawn from the table \<^verbatim>\<open>df_age\<close>, which the function returns with the figure.
\<close>

record age_figure =
  age_title :: string
  x_range :: "string list"

text \<open>
  \<^verbatim>\<open>df_state.groupby('age_group')[STATE_FIGURES].sum()\<close>: one row for each group key, the
  keys in ascending order, with the sum of each figure over the rows of the group.
\<close>

definition groupby_sum :: "state_record list \<Rightarrow> (string \<times> int list) list" where
  "groupby_sum df =
     map (\<lambda>k. (k, map (\<lambda>c. nansum (map (state_figure c)
                                       (filter (\<lambda>r. age_group r = Some k) df))) STATE_FIGURES))
         (sort (unique (List.map_filter age_group df)))"

definition age_by_state ::
  "state_record frame \<Rightarrow> string \<Rightarrow> py_error + (age_figure \<times> (string \<times> int list) list)"
where
  "age_by_state data target =
     (if ''state'' \<notin> set (columns data) then Inl (KeyError ''state'')
      else
        let df_state = filter (\<lambda>r. state r = target) (rows data) in
        if ''age_group'' \<notin> set (columns data) then Inl (KeyError ''age_group'')
        else
          let df_state = filter (\<lambda>r. case age_group r of None \<Rightarrow> False
                                      | Some a \<Rightarrow> a \<in> set AGE_GROUPS) df_state;
              cohorts = unique (List.map_filter age_group df_state)
          in if \<not> set STATE_FIGURES \<subseteq> set (columns data)
             then Inl (KeyError ''STATE_FIGURES'')
             else
               let df_age = groupby_sum df_state
               in Inr (\<lparr>age_title = ''Deaths x Age - '' @ target, x_range = cohorts\<rparr>, df_age))"

section \<open>The request handler: \<^verbatim>\<open>index\<close>\<close>

text \<open>
  Lines 149 and 150 of the source: the rows whose \<^verbatim>\<open>state\<close> contains \<^verbatim>\<open>"Total"\<close> are
  dropped from the frame. Reading the column raises \<^verbatim>\<open>KeyError\<close> when the frame has no
  such column.
\<close>

definition region_filter :: "state_record frame \<Rightarrow> py_error + state_record frame" where
  "region_filter state_data =
     (if ''state'' \<notin> set (columns state_data) then Inl (KeyError ''state'')
      else Inr (state_data\<lparr>rows :=
                  filter (\<lambda>r. \<not> str_contains ''Total'' (state r)) (rows state_data)\<rparr>))"

text \<open>Lines 158 and 159: the list of states handed to the page template.\<close>

definition selectable_states :: "state_record frame \<Rightarrow> string list" where
  "selectable_states state_data =
     filter (\<lambda>x. x \<noteq> ''New York City'') (map state (rows state_data))"

text \<open>
  The values \<^verbatim>\<open>index\<close> computes for the page. The two frames are what \<^verbatim>\<open>pd.read_json\<close>
  delivered, and \<open>arg\<close> is the request's \<^verbatim>\<open>state\<close> argument. The calls into bokeh's
  \<^verbatim>\<open>components\<close> and flask's \<^verbatim>\<open>render_template\<close> are outside the model: the record
  holds the values the handler has computed for them.
\<close>

record page =
  state_plot :: age_figure
  df :: "(string \<times> int list) list"
  county_plot :: county_result
  current_state :: string
  states :: "string list"

definition index ::
  "(string \<times> string) list \<Rightarrow> county_geometry list \<Rightarrow> string option
     \<Rightarrow> state_record frame \<Rightarrow> county_record frame \<Rightarrow> py_error + page"
where
  "index state_mapping county_geo arg state_data county_data =
     (let cur = (case arg of None \<Rightarrow> ''New York'' | Some s \<Rightarrow> s) in
      case region_filter state_data of
        Inl e \<Rightarrow> Inl e
      | Inr cleaned \<Rightarrow>
          (case age_by_state cleaned cur of
             Inl e \<Rightarrow> Inl e
           | Inr (plot, df_age) \<Rightarrow>
               Inr \<lparr>state_plot = plot, df = df_age,
                    county_plot = deaths_by_county state_mapping county_geo county_data cur,
                    current_state = cur,
                    states = selectable_states cleaned\<rparr>))"

section \<open>Concrete data sets\<close>

text \<open>
  Small inputs on which the functions are evaluated: a mapping with two states, a
  geometry table with three counties of New York and one of New Jersey, and county and
  state frames with the columns of the two CDC data sets.
\<close>

definition example_mapping :: "(string \<times> string) list" where
  "example_mapping = [(''NJ'', ''New Jersey''), (''NY'', ''New York'')]"

definition county_columns :: "string list" where
  "county_columns =
     [''data_as_of'', ''start_week'', ''end_week'', ''state_name'', ''county_name'',
      ''county_fips_code'', ''urban_rural_code'', ''covid_death'', ''total_death'']"

definition albany :: county_geometry where
  "albany = \<lparr>name = ''Albany'', detailed_name = ''Albany County, New York'',
             geo_state = ''ny'', lats = [42, 43], lons = [-73, -74]\<rparr>"

definition bergen :: county_geometry where
  "bergen = \<lparr>name = ''Bergen'', detailed_name = ''Bergen County, New Jersey'',
             geo_state = ''nj'', lats = [40, 41], lons = [-74, -75]\<rparr>"

definition bronx :: county_geometry where
  "bronx = \<lparr>name = ''Bronx'', detailed_name = ''Bronx County, New York'',
            geo_state = ''ny'', lats = [40, 41], lons = [-73, -74]\<rparr>"

definition kings :: county_geometry where
  "kings = \<lparr>name = ''Kings'', detailed_name = ''Kings County, New York'',
            geo_state = ''ny'', lats = [40, 41], lons = [-73, -74]\<rparr>"

definition example_geometry :: "county_geometry list" where
  "example_geometry = [albany, bergen, bronx, kings]"

definition example_county_data :: "county_record frame" where
  "example_county_data =
     \<lparr>columns = county_columns,
      rows = [\<lparr>state_name = ''NY'', county_name = ''Albany County'', covid_death = Some 5\<rparr>,
              \<lparr>state_name = ''NJ'', county_name = ''Bergen County'', covid_death = Some 7\<rparr>]\<rparr>"

text \<open>The figure of the county join of New York on the example data.\<close>

definition example_figure :: county_figure where
  "example_figure =
     \<lparr>county_title = ''New York - Covid Deaths'',
      county_xs = [[-73, -74], [-73, -74], [-73, -74]],
      county_ys = [[42, 43], [40, 41], [40, 41]],
      county_names = [''Albany'', ''Bronx'', ''Kings''],
      county_rates = [5, 0, 0], low = 0, high = 5\<rparr>"

text \<open>A county frame in which one county has two records.\<close>

definition duplicate_county_data :: "county_record frame" where
  "duplicate_county_data =
     \<lparr>columns = county_columns,
      rows = [\<lparr>state_name = ''NY'', county_name = ''Albany County'', covid_death = Some 5\<rparr>,
              \<lparr>state_name = ''NY'', county_name = ''Albany County'', covid_death = Some 3\<rparr>]\<rparr>"

text \<open>A county frame without the column of the death counts.\<close>

definition no_count_data :: "county_record frame" where
  "no_count_data =
     \<lparr>columns = [''data_as_of'', ''start_week'', ''end_week'', ''state_name'', ''county_name''],
      rows = [\<lparr>state_name = ''NY'', county_name = ''Albany County'', covid_death = None\<rparr>]\<rparr>"

definition state_columns :: "string list" where
  "state_columns =
     [''data_as_of'', ''start_week'', ''end_week'', ''state'', ''sex'', ''age_group'',
      ''covid_19_deaths'', ''total_deaths'', ''pneumonia_deaths'',
      ''pneumonia_and_covid_19_deaths'', ''influenza_deaths'',
      ''pneumonia_influenza_or_covid'']"

text \<open>Two rows of New York: the cohort under one year first, then 25 to 34 years.\<close>

definition new_york_data :: "state_record frame" where
  "new_york_data =
     \<lparr>columns = state_columns,
      rows =
        [\<lparr>state = ''New York'', age_group = Some ''Under 1 year'',
          covid_19_deaths = Some 2, total_deaths = Some 50, pneumonia_deaths = Some 1,
          pneumonia_and_covid_19_deaths = Some 0, influenza_deaths = None,
          pneumonia_influenza_or_covid = Some 3\<rparr>,
         \<lparr>state = ''New York'', age_group = Some ''25-34 years'',
          covid_19_deaths = Some 10, total_deaths = Some 90, pneumonia_deaths = Some 4,
          pneumonia_and_covid_19_deaths = Some 2, influenza_deaths = Some 1,
          pneumonia_influenza_or_covid = Some 13\<rparr>]\<rparr>"

text \<open>A state frame with a rollup row, the city of New York and rows outside the cohorts.\<close>

definition example_state_data :: "state_record frame" where
  "example_state_data =
     \<lparr>columns = state_columns,
      rows =
        [\<lparr>state = ''United States Total'', age_group = Some ''25-34 years'',
          covid_19_deaths = Some 700, total_deaths = Some 9000, pneumonia_deaths = Some 300,
          pneumonia_and_covid_19_deaths = Some 100, influenza_deaths = Some 20,
          pneumonia_influenza_or_covid = Some 920\<rparr>,
         \<lparr>state = ''New York'', age_group = Some ''25-34 years'',
          covid_19_deaths = Some 10, total_deaths = Some 90, pneumonia_deaths = Some 4,
          pneumonia_and_covid_19_deaths = Some 2, influenza_deaths = Some 1,
          pneumonia_influenza_or_covid = Some 13\<rparr>,
         \<lparr>state = ''New York City'', age_group = Some ''25-34 years'',
          covid_19_deaths = Some 8, total_deaths = Some 60, pneumonia_deaths = Some 3,
          pneumonia_and_covid_19_deaths = Some 2, influenza_deaths = None,
          pneumonia_influenza_or_covid = Some 9\<rparr>,
         \<lparr>state = ''New York'', age_group = Some ''All ages'',
          covid_19_deaths = Some 40, total_deaths = Some 400, pneumonia_deaths = Some 9,
          pneumonia_and_covid_19_deaths = Some 5, influenza_deaths = Some 2,
          pneumonia_influenza_or_covid = Some 46\<rparr>,
         \<lparr>state = ''District of Columbia'', age_group = None,
          covid_19_deaths = Some 6, total_deaths = Some 70, pneumonia_deaths = Some 2,
          pneumonia_and_covid_19_deaths = Some 1, influenza_deaths = Some 0,
          pneumonia_influenza_or_covid = Some 7\<rparr>,
         \<lparr>state = ''New York'', age_group = Some ''25-34 years'',
          covid_19_deaths = None, total_deaths = Some 10, pneumonia_deaths = Some 1,
          pneumonia_and_covid_19_deaths = None, influenza_deaths = Some 1,
          pneumonia_influenza_or_covid = Some 2\<rparr>]\<rparr>"

text \<open>The same frame without the column \<^verbatim>\<open>state\<close>.\<close>

definition no_state_data :: "state_record frame" where
  "no_state_data = example_state_data\<lparr>columns := [''data_as_of'', ''sex'', ''age_group'']\<rparr>"

section \<open>Properties of the library operations\<close>

lemma startswith_iff: "startswith pat s \<longleftrightarrow> (\<exists>b. s = pat @ b)"
  by (induction pat s rule: startswith.induct) auto

text \<open>\<open>str_contains\<close> decides whether the pattern is a substring.\<close>

lemma str_contains_iff: "str_contains pat s \<longleftrightarrow> (\<exists>a b. s = a @ pat @ b)"
proof (induction s)
  case Nil
  then show ?case by auto
next
  case (Cons c cs)
  show ?case
  proof
    assume "str_contains pat (c # cs)"
    then consider "startswith pat (c # cs)" | "str_contains pat cs" by auto
    then show "\<exists>a b. c # cs = a @ pat @ b"
    proof cases
      case 1
      then obtain b where "c # cs = pat @ b" by (auto simp: startswith_iff)
      then have "c # cs = [] @ pat @ b" by simp
      then show ?thesis by blast
    next
      case 2
      with Cons obtain a b where "cs = a @ pat @ b" by auto
      then have "c # cs = (c # a) @ pat @ b" by simp
      then show ?thesis by blast
    qed
  next
    assume "\<exists>a b. c # cs = a @ pat @ b"
    then obtain a b where ab: "c # cs = a @ pat @ b" by blast
    show "str_contains pat (c # cs)"
    proof (cases a)
      case Nil
      with ab have "startswith pat (c # cs)" by (auto simp: startswith_iff)
      then show ?thesis by simp
    next
      case (Cons a0 as)
      with ab have "cs = as @ pat @ b" by simp
      with Cons.IH have "str_contains pat cs" by blast
      then show ?thesis by simp
    qed
  qed
qed

text \<open>Python's \<^verbatim>\<open>max\<close> is the greatest element.\<close>

lemma py_max_Max:
  assumes "vs \<noteq> []"
  shows "py_max vs = Inr (Max (set vs))"
proof (cases vs)
  case Nil
  with assms show ?thesis by simp
next
  case (Cons a list)
  then show ?thesis using Max.set_eq_fold [of a list] by simp
qed

lemma sorted_nth_le_Max:
  fixes vs :: "real list"
  assumes "i < length vs"
  shows "sort vs ! i \<le> Max (set vs)"
proof -
  have "sort vs ! i \<in> set (sort vs)" using assms by (intro nth_mem) simp
  then have "sort vs ! i \<in> set vs" by simp
  then show ?thesis by simp
qed

lemma median_le_Max:
  assumes "vs \<noteq> []"
  shows "median vs \<le> Max (set vs)"
proof -
  let ?n = "length vs"
  have n: "0 < ?n" using assms by simp
  show ?thesis
  proof (cases "?n mod 2 = 1")
    case True
    have "?n div 2 < ?n" using n by simp
    then show ?thesis using True by (simp add: median_def sorted_nth_le_Max)
  next
    case False
    have a: "sort vs ! (?n div 2 - 1) \<le> Max (set vs)"
      using n by (intro sorted_nth_le_Max) arith
    have b: "sort vs ! (?n div 2) \<le> Max (set vs)"
      using n by (intro sorted_nth_le_Max) simp
    from a b have "(sort vs ! (?n div 2 - 1) + sort vs ! (?n div 2)) / 2 \<le> Max (set vs)"
      by simp
    then show ?thesis using False by (simp add: median_def Let_def)
  qed
qed

text \<open>
  The median splits the sequence: at least half of the values are at most the median,
  and at least half are at least the median.
\<close>

lemma length_filter_sort:
  fixes vs :: "real list"
  shows "length (filter P (sort vs)) = length (filter P vs)"
proof -
  have "mset (filter P (sort vs)) = mset (filter P vs)" by simp
  then show ?thesis by (rule mset_eq_length)
qed

lemma sorted_count_le:
  fixes s :: "real list"
  assumes "sorted s" "k < length s" "s ! k \<le> x"
  shows "Suc k \<le> length (filter (\<lambda>v. v \<le> x) s)"
proof -
  have all: "\<forall>v \<in> set (take (Suc k) s). v \<le> x"
  proof
    fix v assume "v \<in> set (take (Suc k) s)"
    then obtain i where i: "i < Suc k" "i < length s" "v = s ! i"
      by (auto simp: in_set_conv_nth)
    then have "s ! i \<le> s ! k" using assms(1,2) by (intro sorted_nth_mono) auto
    with i assms(3) show "v \<le> x" by simp
  qed
  have "filter (\<lambda>v. v \<le> x) s =
        filter (\<lambda>v. v \<le> x) (take (Suc k) s) @ filter (\<lambda>v. v \<le> x) (drop (Suc k) s)"
    by (metis append_take_drop_id filter_append)
  moreover have "filter (\<lambda>v. v \<le> x) (take (Suc k) s) = take (Suc k) s"
    using all by (simp add: filter_id_conv)
  ultimately have "length (filter (\<lambda>v. v \<le> x) s) \<ge> length (take (Suc k) s)"
    by simp
  then show ?thesis using assms(2) by simp
qed

lemma sorted_count_ge:
  fixes s :: "real list"
  assumes "sorted s" "k < length s" "x \<le> s ! k"
  shows "length s - k \<le> length (filter (\<lambda>v. x \<le> v) s)"
proof -
  have all: "\<forall>v \<in> set (drop k s). x \<le> v"
  proof
    fix v assume "v \<in> set (drop k s)"
    then obtain i where i: "i < length s - k" "v = s ! (k + i)"
      by (auto simp: in_set_conv_nth)
    then have "s ! k \<le> s ! (k + i)" using assms(1) by (intro sorted_nth_mono) auto
    with i assms(3) show "x \<le> v" by simp
  qed
  have "filter (\<lambda>v. x \<le> v) s =
        filter (\<lambda>v. x \<le> v) (take k s) @ filter (\<lambda>v. x \<le> v) (drop k s)"
    by (metis append_take_drop_id filter_append)
  moreover have "filter (\<lambda>v. x \<le> v) (drop k s) = drop k s"
    using all by (simp add: filter_id_conv)
  ultimately have "length (filter (\<lambda>v. x \<le> v) s) \<ge> length (drop k s)"
    by simp
  then show ?thesis by simp
qed

lemma median_halves:
  assumes "vs \<noteq> []"
  shows "length vs \<le> 2 * length (filter (\<lambda>v. v \<le> median vs) vs)"
    and "length vs \<le> 2 * length (filter (\<lambda>v. median vs \<le> v) vs)"
proof -
  let ?s = "sort vs" and ?n = "length vs"
  have n: "0 < ?n" using assms by simp
  have srt: "sorted ?s" and len: "length ?s = ?n" by simp_all
  have "length vs \<le> 2 * length (filter (\<lambda>v. v \<le> median vs) ?s) \<and>
        length vs \<le> 2 * length (filter (\<lambda>v. median vs \<le> v) ?s)"
  proof (cases "?n mod 2 = 1")
    case True
    then have m: "median vs = ?s ! (?n div 2)" by (simp add: median_def)
    have k: "?n div 2 < length ?s" using n by simp
    have "Suc (?n div 2) \<le> length (filter (\<lambda>v. v \<le> median vs) ?s)"
      using sorted_count_le [OF srt k, of "median vs"] m by simp
    moreover have "length ?s - ?n div 2 \<le> length (filter (\<lambda>v. median vs \<le> v) ?s)"
      using sorted_count_ge [OF srt k, of "median vs"] m by simp
    ultimately show ?thesis using True by (simp only: len) arith
  next
    case False
    then have m: "median vs = (?s ! (?n div 2 - 1) + ?s ! (?n div 2)) / 2"
      by (simp add: median_def Let_def)
    have ev: "?n = 2 * (?n div 2)" using False by arith
    have h: "0 < ?n div 2" using n ev by arith
    have k1: "?n div 2 - 1 < length ?s" using n by (simp only: len)
    have k2: "?n div 2 < length ?s" using n by simp
    have le: "?s ! (?n div 2 - 1) \<le> ?s ! (?n div 2)"
      using srt k2 by (intro sorted_nth_mono) auto
    have lo: "?s ! (?n div 2 - 1) \<le> median vs" and hi: "median vs \<le> ?s ! (?n div 2)"
      using le m by simp_all
    have "Suc (?n div 2 - 1) \<le> length (filter (\<lambda>v. v \<le> median vs) ?s)"
      using sorted_count_le [OF srt k1 lo] .
    moreover have "length ?s - ?n div 2 \<le> length (filter (\<lambda>v. median vs \<le> v) ?s)"
      using sorted_count_ge [OF srt k2 hi] .
    ultimately show ?thesis using ev h by (simp only: len) arith
  qed
  then show "length vs \<le> 2 * length (filter (\<lambda>v. v \<le> median vs) vs)"
    and "length vs \<le> 2 * length (filter (\<lambda>v. median vs \<le> v) vs)"
    by (simp_all only: length_filter_sort)
qed

section \<open>Properties of the right merge\<close>

lemma merge_right_Cons:
  "merge_right left (g # gs) =
     (if filter (\<lambda>r. county_name r = county_key g) left = [] then [(None, g)]
      else map (\<lambda>r. (Some r, g)) (filter (\<lambda>r. county_name r = county_key g) left))
     @ merge_right left gs"
  by (simp add: merge_right_def Let_def)

lemma length_merge_right:
  "length (merge_right left right) =
     sum_list (map (\<lambda>g. max 1 (length (filter (\<lambda>r. county_name r = county_key g) left))) right)"
proof (induction right)
  case Nil
  show ?case by (simp add: merge_right_def)
next
  case (Cons g gs)
  have "filter (\<lambda>r. county_name r = county_key g) left \<noteq> [] \<Longrightarrow>
        1 \<le> length (filter (\<lambda>r. county_name r = county_key g) left)"
    by (cases "filter (\<lambda>r. county_name r = county_key g) left") simp_all
  then show ?case using Cons.IH by (simp add: merge_right_Cons max_def)
qed

lemma length_merge_right_single:
  assumes "\<forall>g \<in> set right. length (filter (\<lambda>r. county_name r = county_key g) left) \<le> 1"
  shows "length (merge_right left right) = length right"
  using assms by (induction right) (auto simp: length_merge_right)

lemma merge_right_member:
  assumes "g \<in> set right"
  shows "\<exists>m \<in> set (merge_right left right). snd m = g \<and>
           (filter (\<lambda>r. county_name r = county_key g) left = [] \<longrightarrow> fst m = None)"
proof (cases "filter (\<lambda>r. county_name r = county_key g) left")
  case Nil
  with assms have "(None, g) \<in> set (merge_right left right)"
    by (auto simp: merge_right_def Let_def intro!: bexI [of _ g])
  then show ?thesis by force
next
  case (Cons r rs)
  then have "r \<in> set (filter (\<lambda>r. county_name r = county_key g) left)" by simp
  then have r: "r \<in> set left" "county_name r = county_key g" by simp_all
  with assms Cons have "(Some r, g) \<in> set (merge_right left right)"
    by (auto simp: merge_right_def Let_def intro!: bexI [of _ g])
  with Cons show ?thesis by force
qed

lemma subseq_merge_right: "subseq right (map snd (merge_right left right))"
proof (induction right)
  case Nil
  show ?case by (simp add: merge_right_def)
next
  case (Cons g gs)
  show ?case
  proof (cases "filter (\<lambda>r. county_name r = county_key g) left")
    case Nil
    then show ?thesis using Cons.IH by (simp add: merge_right_Cons)
  next
    case (Cons r rs)
    have "subseq gs (map (\<lambda>r. g) rs @ map snd (merge_right left gs))"
      using Cons.IH by (rule list_emb_append2)
    then show ?thesis using Cons by (simp add: merge_right_Cons comp_def)
  qed
qed

lemma rate_of_unmatched: "fst m = None \<Longrightarrow> rate_of m = 0"
  by (simp add: rate_of_def)

section \<open>The shape of a successful county join\<close>

lemma deaths_by_county_try_Inr:
  assumes "deaths_by_county_try sm geo data t = Inr p"
  shows "\<exists>code nm.
           filter_state (filter (\<lambda>(c, n). n = t) sm) = Some (code, nm) \<and>
           filter (\<lambda>g. geo_state g = lower code) geo \<noteq> [] \<and>
           county_xs p = map (\<lambda>m. lons (snd m))
             (merge_right (filter (\<lambda>r. state_name r = code) (rows data))
                (filter (\<lambda>g. geo_state g = lower code) geo)) \<and>
           county_ys p = map (\<lambda>m. lats (snd m))
             (merge_right (filter (\<lambda>r. state_name r = code) (rows data))
                (filter (\<lambda>g. geo_state g = lower code) geo)) \<and>
           county_names p = map (\<lambda>m. name (snd m))
             (merge_right (filter (\<lambda>r. state_name r = code) (rows data))
                (filter (\<lambda>g. geo_state g = lower code) geo)) \<and>
           county_rates p = map rate_of
             (merge_right (filter (\<lambda>r. state_name r = code) (rows data))
                (filter (\<lambda>g. geo_state g = lower code) geo)) \<and>
           low p = median (county_rates p) \<and>
           py_max (county_rates p) = Inr (high p)"
  using assms
  unfolding deaths_by_county_try_def Let_def
  by (auto split: option.splits if_splits sum.splits prod.splits)

lemma deaths_by_county_Figure:
  "deaths_by_county sm geo data t = Figure p \<longleftrightarrow> deaths_by_county_try sm geo data t = Inr p"
  by (simp add: deaths_by_county_def split: sum.splits)

lemma resolved_code:
  assumes "deaths_by_county sm geo data target = Figure p"
      and "filter_state (filter (\<lambda>(code, nm). nm = target) sm) = Some (state_code, nm)"
  shows "filter (\<lambda>g. geo_state g = lower state_code) geo \<noteq> []"
    and "county_xs p = map (\<lambda>m. lons (snd m))
             (merge_right (filter (\<lambda>r. state_name r = state_code) (rows data))
                (filter (\<lambda>g. geo_state g = lower state_code) geo))"
    and "county_ys p = map (\<lambda>m. lats (snd m))
             (merge_right (filter (\<lambda>r. state_name r = state_code) (rows data))
                (filter (\<lambda>g. geo_state g = lower state_code) geo))"
    and "county_names p = map (\<lambda>m. name (snd m))
             (merge_right (filter (\<lambda>r. state_name r = state_code) (rows data))
                (filter (\<lambda>g. geo_state g = lower state_code) geo))"
    and "county_rates p = map rate_of
             (merge_right (filter (\<lambda>r. state_name r = state_code) (rows data))
                (filter (\<lambda>g. geo_state g = lower state_code) geo))"
proof -
  from assms(1) have "deaths_by_county_try sm geo data target = Inr p"
    by (simp add: deaths_by_county_Figure)
  from deaths_by_county_try_Inr [OF this] assms(2)
  show "filter (\<lambda>g. geo_state g = lower state_code) geo \<noteq> []"
    and "county_xs p = map (\<lambda>m. lons (snd m))
             (merge_right (filter (\<lambda>r. state_name r = state_code) (rows data))
                (filter (\<lambda>g. geo_state g = lower state_code) geo))"
    and "county_ys p = map (\<lambda>m. lats (snd m))
             (merge_right (filter (\<lambda>r. state_name r = state_code) (rows data))
                (filter (\<lambda>g. geo_state g = lower state_code) geo))"
    and "county_names p = map (\<lambda>m. name (snd m))
             (merge_right (filter (\<lambda>r. state_name r = state_code) (rows data))
                (filter (\<lambda>g. geo_state g = lower state_code) geo))"
    and "county_rates p = map rate_of
             (merge_right (filter (\<lambda>r. state_name r = state_code) (rows data))
                (filter (\<lambda>g. geo_state g = lower state_code) geo))"
    by auto
qed



lemma index_Inr:
  assumes "index sm geo arg sd cd = Inr pg"
  shows "\<exists>cleaned. region_filter sd = Inr cleaned \<and>
           states pg = selectable_states cleaned \<and>
           county_plot pg =
             deaths_by_county sm geo cd (case arg of None \<Rightarrow> ''New York'' | Some s \<Rightarrow> s)"
  using assms unfolding index_def Let_def
  by (auto split: sum.splits prod.splits)

section \<open>Evaluations on the concrete data sets\<close>

lemmas county_example_defs =
  example_mapping_def example_geometry_def albany_def bergen_def bronx_def kings_def
  example_county_data_def duplicate_county_data_def no_count_data_def county_columns_def
  example_figure_def

lemmas county_join_defs =
  deaths_by_county_def deaths_by_county_try_def filter_state_def merge_right_def rate_of_def
  median_def lower_def lower_char_def county_key_def

lemma example_join:
  "deaths_by_county example_mapping example_geometry example_county_data ''New York'' =
     Figure example_figure"
  by (simp add: county_example_defs county_join_defs)

lemma example_resolved:
  "filter_state (filter (\<lambda>(code, nm). nm = ''New York'') example_mapping) =
     Some (''NY'', ''New York'')"
  by (simp add: example_mapping_def filter_state_def)



lemma example_index_default:
  "index example_mapping example_geometry None example_state_data example_county_data =
   Inr \<lparr>state_plot = \<lparr>age_title = ''Deaths x Age - New York'', x_range = [''25-34 years'']\<rparr>,
        df = [(''25-34 years'', [10, 100, 5, 2, 2, 15])],
        county_plot = Figure example_figure,
        current_state = ''New York'',
        states = [''New York'', ''New York'', ''District of Columbia'', ''New York'']\<rparr>"
  by code_simp

section \<open>Properties of \<open>unique\<close> and of the grouped sums\<close>

lemma set_unique: "set (unique vs) = set vs"
  by (induction vs rule: unique.induct) auto

lemma distinct_unique: "distinct (unique vs)"
  by (induction vs rule: unique.induct) (auto simp: set_unique)

lemma takeWhile_filter_neq:
  assumes "a \<noteq> v"
  shows "takeWhile (\<lambda>x. x \<noteq> a) (filter (\<lambda>w. w \<noteq> v) vs) =
         filter (\<lambda>w. w \<noteq> v) (takeWhile (\<lambda>x. x \<noteq> a) vs)"
  using assms by (induction vs) auto

lemma length_filter_takeWhile_mono:
  assumes "length (takeWhile P vs) \<le> length (takeWhile R vs)"
  shows "length (filter Q (takeWhile P vs)) \<le> length (filter Q (takeWhile R vs))"
proof -
  let ?m = "length (takeWhile P vs)" and ?n = "length (takeWhile R vs)"
  have "takeWhile P vs = take ?m vs" by (rule takeWhile_eq_take)
  also have "\<dots> = take ?m (take ?n vs)" using assms by (simp add: min_def)
  also have "take ?n vs = takeWhile R vs" by (rule takeWhile_eq_take [symmetric])
  finally have "takeWhile R vs = takeWhile P vs @ drop ?m (takeWhile R vs)"
    by (metis append_take_drop_id)
  then have "filter Q (takeWhile R vs) =
      filter Q (takeWhile P vs) @ filter Q (drop ?m (takeWhile R vs))"
    by (metis filter_append)
  then show ?thesis by simp
qed

text \<open>
  \<open>unique\<close> lists the values in the order of their first appearance: of two positions of
  the result, the earlier one holds the value whose first occurrence in the input comes
  first.
\<close>

lemma unique_first_appearance:
  assumes "i < j" "j < length (unique vs)"
  shows "length (takeWhile (\<lambda>x. x \<noteq> unique vs ! i) vs) <
         length (takeWhile (\<lambda>x. x \<noteq> unique vs ! j) vs)"
  using assms
proof (induction vs arbitrary: i j rule: unique.induct)
  case 1
  then show ?case by simp
next
  case (2 v vs)
  let ?f = "filter (\<lambda>w. w \<noteq> v) vs"
  let ?u = "unique ?f"
  from "2.prems" obtain j' where j': "j = Suc j'" "j' < length ?u"
    by (cases j) auto
  have "?u ! j' \<in> set ?u" using j' by simp
  then have bv: "?u ! j' \<noteq> v" by (auto simp: set_unique)
  show ?case
  proof (cases i)
    case 0
    with j' bv show ?thesis by simp
  next
    case (Suc i')
    with "2.prems" j' have i': "i' < j'" by simp
    then have "?u ! i' \<in> set ?u" using j' by simp
    then have av: "?u ! i' \<noteq> v" by (auto simp: set_unique)
    from "2.IH" [OF i' j'(2)]
    have "length (filter (\<lambda>w. w \<noteq> v) (takeWhile (\<lambda>x. x \<noteq> ?u ! i') vs)) <
          length (filter (\<lambda>w. w \<noteq> v) (takeWhile (\<lambda>x. x \<noteq> ?u ! j') vs))"
      by (simp add: takeWhile_filter_neq [OF av] takeWhile_filter_neq [OF bv])
    then have "\<not> length (takeWhile (\<lambda>x. x \<noteq> ?u ! j') vs) \<le>
                 length (takeWhile (\<lambda>x. x \<noteq> ?u ! i') vs)"
      using length_filter_takeWhile_mono
        [of "\<lambda>x. x \<noteq> ?u ! j'" vs "\<lambda>x. x \<noteq> ?u ! i'" "\<lambda>w. w \<noteq> v"]
      by linarith
    then show ?thesis using Suc j' av bv by simp
  qed
qed





lemma keys_groupby_sum: "map fst (groupby_sum rs) = sort (unique (List.map_filter age_group rs))"
  by (simp add: groupby_sum_def comp_def)

lemma age_by_state_Inr:
  assumes "age_by_state data target = Inr (plot, df_age)"
  shows "x_range plot =
           unique (List.map_filter age_group
             (filter (\<lambda>r. case age_group r of None \<Rightarrow> False | Some a \<Rightarrow> a \<in> set AGE_GROUPS)
                (filter (\<lambda>r. state r = target) (rows data))))"
    and "df_age =
           groupby_sum
             (filter (\<lambda>r. case age_group r of None \<Rightarrow> False | Some a \<Rightarrow> a \<in> set AGE_GROUPS)
                (filter (\<lambda>r. state r = target) (rows data)))"
  using assms unfolding age_by_state_def Let_def
  by (auto split: if_splits)

section \<open>Evaluations of the state pipeline\<close>

lemma new_york_cohorts:
  "age_by_state new_york_data ''New York'' =
     Inr (\<lparr>age_title = ''Deaths x Age - New York'',
            x_range = [''Under 1 year'', ''25-34 years'']\<rparr>,
          [(''25-34 years'', [10, 90, 4, 2, 1, 13]),
           (''Under 1 year'', [2, 50, 1, 0, 0, 3])])"
  by code_simp


lemma example_region_filter:
  "region_filter example_state_data =
     Inr (example_state_data\<lparr>rows := tl (rows example_state_data)\<rparr>)"
  by (simp add: region_filter_def example_state_data_def state_columns_def)

section \<open>The claims about the county join\<close>



text \<open>
  Claim C2. In the figure of a successful county join with a non-empty rate sequence, the
  low end of the colour mapper is the median of the rates and the high end is their
  maximum, and the low end does not exceed the high end. The median is a median in the
  usual sense: at least half of the rates are at most it and at least half are at least it.
\<close>

theorem color_scale_domain:
  assumes "deaths_by_county state_mapping county_geo data target = Figure p"
      and "county_rates p \<noteq> []"
  shows "low p = median (county_rates p) \<and>
         high p = Max (set (county_rates p)) \<and>
         low p \<le> high p \<and>
         length (county_rates p) \<le> 2 * length (filter (\<lambda>v. v \<le> low p) (county_rates p)) \<and>
         length (county_rates p) \<le> 2 * length (filter (\<lambda>v. low p \<le> v) (county_rates p))"
proof -
  from assms(1) have "deaths_by_county_try state_mapping county_geo data target = Inr p"
    by (simp add: deaths_by_county_Figure)
  from deaths_by_county_try_Inr [OF this]
  have lo: "low p = median (county_rates p)" and mx: "py_max (county_rates p) = Inr (high p)"
    by auto
  from mx py_max_Max [OF assms(2)] have hi: "high p = Max (set (county_rates p))" by simp
  show ?thesis
    using lo hi median_le_Max [OF assms(2)] median_halves [OF assms(2)] by simp
qed

theorem color_scale_domain_witness:
  "deaths_by_county example_mapping example_geometry example_county_data ''New York'' =
     Figure example_figure \<and>
   county_rates example_figure = [5, 0, 0] \<and>
   low example_figure = median [5, 0, 0] \<and>
   high example_figure = Max (set [5, 0, 0]) \<and>
   low example_figure = 0 \<and> high example_figure = 5 \<and>
   low example_figure \<le> high example_figure"
proof -
  have rates: "county_rates example_figure = [5, 0, 0]" by (simp add: example_figure_def)
  then have ne: "county_rates example_figure \<noteq> []" by simp
  from color_scale_domain [OF example_join ne] rates example_join
  show ?thesis by (simp add: example_figure_def)
qed

text \<open>
  Claim C3. In a successful county join every geometry entry of the resolved state has a
  position in the output that carries its name and coordinates, and when no record of
  the state in the county data has the entry's county name the rate at that position is
  0. The names of the geometry entries occur in the output in the order of the geometry
  table. On the example (three counties of New York in the geometry table, one matching
  record with count 5) the rates are 5, 0, 0, the median is 0 and the maximum is 5.
\<close>

theorem unmatched_counties_rate_zero:
  assumes "deaths_by_county state_mapping county_geo data target = Figure p"
      and "filter_state (filter (\<lambda>(code, nm). nm = target) state_mapping) = Some (state_code, nm)"
  shows "(\<forall>g \<in> set county_geo. geo_state g = lower state_code \<longrightarrow>
            (\<exists>i < length (county_rates p).
               county_names p ! i = name g \<and> county_xs p ! i = lons g \<and>
               county_ys p ! i = lats g \<and>
               ((\<forall>r \<in> set (rows data). state_name r = state_code \<longrightarrow>
                    county_name r \<noteq> county_key g) \<longrightarrow> county_rates p ! i = 0))) \<and>
         subseq (map name (filter (\<lambda>g. geo_state g = lower state_code) county_geo))
                (county_names p) \<and>
         deaths_by_county example_mapping example_geometry example_county_data ''New York'' =
           Figure \<lparr>county_title = ''New York - Covid Deaths'',
                   county_xs = [[-73, -74], [-73, -74], [-73, -74]],
                   county_ys = [[42, 43], [40, 41], [40, 41]],
                   county_names = [''Albany'', ''Bronx'', ''Kings''],
                   county_rates = [5, 0, 0], low = 0, high = 5\<rparr>"
proof (intro conjI ballI impI)
  let ?left = "filter (\<lambda>r. state_name r = state_code) (rows data)"
  let ?right = "filter (\<lambda>g. geo_state g = lower state_code) county_geo"
  let ?M = "merge_right ?left ?right"
  note out = resolved_code [OF assms]
  fix g assume g: "g \<in> set county_geo" "geo_state g = lower state_code"
  then have "g \<in> set ?right" by simp
  from merge_right_member [OF this, of ?left] obtain m where
    m: "m \<in> set ?M" "snd m = g"
       "filter (\<lambda>r. county_name r = county_key g) ?left = [] \<longrightarrow> fst m = None"
    by blast
  from m(1) obtain i where i: "i < length ?M" "?M ! i = m"
    by (auto simp: in_set_conv_nth)
  have un: "rate_of m = 0"
    if "\<forall>r \<in> set (rows data). state_name r = state_code \<longrightarrow> county_name r \<noteq> county_key g"
  proof -
    from that have "filter (\<lambda>r. county_name r = county_key g) ?left = []"
      by (auto simp: filter_empty_conv)
    with m(3) show ?thesis by (simp add: rate_of_unmatched)
  qed
  show "\<exists>i < length (county_rates p).
               county_names p ! i = name g \<and> county_xs p ! i = lons g \<and>
               county_ys p ! i = lats g \<and>
               ((\<forall>r \<in> set (rows data). state_name r = state_code \<longrightarrow>
                    county_name r \<noteq> county_key g) \<longrightarrow> county_rates p ! i = 0)"
    using i m(2) un by (intro exI [of _ i]) (simp add: out)
next
  have "subseq (map name (filter (\<lambda>g. geo_state g = lower state_code) county_geo))
          (map name (map snd (merge_right (filter (\<lambda>r. state_name r = state_code) (rows data))
                (filter (\<lambda>g. geo_state g = lower state_code) county_geo))))"
    by (intro subseq_map subseq_merge_right)
  then show "subseq (map name (filter (\<lambda>g. geo_state g = lower state_code) county_geo))
                (county_names p)"
    by (simp add: resolved_code(4) [OF assms] comp_def)
next
  show "deaths_by_county example_mapping example_geometry example_county_data ''New York'' =
           Figure \<lparr>county_title = ''New York - Covid Deaths'',
                   county_xs = [[-73, -74], [-73, -74], [-73, -74]],
                   county_ys = [[42, 43], [40, 41], [40, 41]],
                   county_names = [''Albany'', ''Bronx'', ''Kings''],
                   county_rates = [5, 0, 0], low = 0, high = 5\<rparr>"
    using example_join by (simp add: example_figure_def)
qed

theorem unmatched_counties_rate_zero_witness:
  "deaths_by_county example_mapping example_geometry example_county_data ''New York'' =
     Figure example_figure \<and>
   filter_state (filter (\<lambda>(code, nm). nm = ''New York'') example_mapping) =
     Some (''NY'', ''New York'') \<and>
   bronx \<in> set example_geometry \<and> geo_state bronx = lower ''NY'' \<and>
   filter (\<lambda>r. state_name r = ''NY'' \<and> county_name r = county_key bronx)
     (rows example_county_data) = [] \<and>
   (\<exists>i < length (county_rates example_figure).
      county_names example_figure ! i = name bronx \<and>
      county_xs example_figure ! i = lons bronx \<and>
      county_ys example_figure ! i = lats bronx \<and>
      county_rates example_figure ! i = 0)"
proof -
  have g: "bronx \<in> set example_geometry" by (simp add: example_geometry_def)
  have st: "geo_state bronx = lower ''NY''" by (simp add: bronx_def lower_def lower_char_def)
  have un: "\<forall>r \<in> set (rows example_county_data).
      state_name r = ''NY'' \<longrightarrow> county_name r \<noteq> county_key bronx"
    by (simp add: example_county_data_def bronx_def county_key_def)
  from unmatched_counties_rate_zero [OF example_join example_resolved]
  have "\<forall>g \<in> set example_geometry. geo_state g = lower ''NY'' \<longrightarrow>
            (\<exists>i < length (county_rates example_figure).
               county_names example_figure ! i = name g \<and>
               county_xs example_figure ! i = lons g \<and>
               county_ys example_figure ! i = lats g \<and>
               ((\<forall>r \<in> set (rows example_county_data). state_name r = ''NY'' \<longrightarrow>
                    county_name r \<noteq> county_key g) \<longrightarrow> county_rates example_figure ! i = 0))"
    by blast
  with g st un have "\<exists>i < length (county_rates example_figure).
      county_names example_figure ! i = name bronx \<and>
      county_xs example_figure ! i = lons bronx \<and>
      county_ys example_figure ! i = lats bronx \<and>
      county_rates example_figure ! i = 0"
    by blast
  moreover have "filter (\<lambda>r. state_name r = ''NY'' \<and> county_name r = county_key bronx)
     (rows example_county_data) = []"
    using un by (auto simp: filter_empty_conv)
  ultimately show ?thesis using example_join example_resolved g st by (intro conjI)
qed

text \<open>
  Claim C4, as the code has it. In a successful county join the three output sequences
  have the same length as the rate sequence. That length is the sum, over the geometry
  entries of the resolved state, of the number of the state's records with the entry's
  county name, counted as 1 when there is none. It is the number of those geometry
  entries whenever no entry is matched by more than one record.
\<close>

theorem output_lengths:
  assumes "deaths_by_county state_mapping county_geo data target = Figure p"
      and "filter_state (filter (\<lambda>(code, nm). nm = target) state_mapping) = Some (state_code, nm)"
  shows "length (county_xs p) = length (county_rates p) \<and>
         length (county_ys p) = length (county_rates p) \<and>
         length (county_names p) = length (county_rates p) \<and>
         length (county_rates p) =
           (\<Sum>g\<leftarrow>filter (\<lambda>g. geo_state g = lower state_code) county_geo.
              max 1 (length (filter (\<lambda>r. state_name r = state_code \<and> county_name r = county_key g)
                               (rows data)))) \<and>
         ((\<forall>g \<in> set county_geo. geo_state g = lower state_code \<longrightarrow>
             length (filter (\<lambda>r. state_name r = state_code \<and> county_name r = county_key g)
                       (rows data)) \<le> 1) \<longrightarrow>
          length (county_rates p) =
            length (filter (\<lambda>g. geo_state g = lower state_code) county_geo))"
proof -
  note out = resolved_code [OF assms]
  have sum: "length (county_rates p) =
           (\<Sum>g\<leftarrow>filter (\<lambda>g. geo_state g = lower state_code) county_geo.
              max 1 (length (filter (\<lambda>r. state_name r = state_code \<and> county_name r = county_key g)
                               (rows data))))"
    by (simp add: out length_merge_right)
  have single: "length (county_rates p) =
            length (filter (\<lambda>g. geo_state g = lower state_code) county_geo)"
    if "\<forall>g \<in> set county_geo. geo_state g = lower state_code \<longrightarrow>
             length (filter (\<lambda>r. state_name r = state_code \<and> county_name r = county_key g)
                       (rows data)) \<le> 1"
  proof -
    from that have "\<forall>g \<in> set (filter (\<lambda>g. geo_state g = lower state_code) county_geo).
        length (filter (\<lambda>r. county_name r = county_key g)
                  (filter (\<lambda>r. state_name r = state_code) (rows data))) \<le> 1"
      by simp
    from length_merge_right_single [OF this] show ?thesis by (simp add: out)
  qed
  show ?thesis using sum single by (simp add: out)
qed

theorem output_lengths_witness:
  "deaths_by_county example_mapping example_geometry example_county_data ''New York'' =
     Figure example_figure \<and>
   filter_state (filter (\<lambda>(code, nm). nm = ''New York'') example_mapping) =
     Some (''NY'', ''New York'') \<and>
   map (\<lambda>g. length (filter (\<lambda>r. state_name r = ''NY'' \<and> county_name r = county_key g)
                       (rows example_county_data)))
     (filter (\<lambda>g. geo_state g = lower ''NY'') example_geometry) = [1, 0, 0] \<and>
   length (county_xs example_figure) = 3 \<and> length (county_ys example_figure) = 3 \<and>
   length (county_names example_figure) = 3 \<and> length (county_rates example_figure) = 3 \<and>
   length (filter (\<lambda>g. geo_state g = lower ''NY'') example_geometry) = 3"
proof -
  have single: "\<forall>g \<in> set example_geometry. geo_state g = lower ''NY'' \<longrightarrow>
      length (filter (\<lambda>r. state_name r = ''NY'' \<and> county_name r = county_key g)
                (rows example_county_data)) \<le> 1"
    by (simp add: county_example_defs county_key_def)
  have three: "length (county_rates example_figure) = 3" by (simp add: example_figure_def)
  have counts: "map (\<lambda>g. length (filter (\<lambda>r. state_name r = ''NY'' \<and> county_name r = county_key g)
                       (rows example_county_data)))
     (filter (\<lambda>g. geo_state g = lower ''NY'') example_geometry) = [1, 0, 0]"
    by (simp add: county_example_defs county_key_def lower_def lower_char_def)
  from output_lengths [OF example_join example_resolved] single three
  have "length (county_xs example_figure) = 3 \<and> length (county_ys example_figure) = 3 \<and>
   length (county_names example_figure) = 3 \<and> length (county_rates example_figure) = 3 \<and>
   length (filter (\<lambda>g. geo_state g = lower ''NY'') example_geometry) = 3"
    by simp
  with counts example_join example_resolved show ?thesis by (intro conjI) simp_all
qed

text \<open>
  The claim C4 as the specification states it fails when a county has two records: the
  geometry table below has one entry, of New York, and the output has two rows.
\<close>

theorem output_lengths_counterexample:
  "deaths_by_county example_mapping [albany] duplicate_county_data ''New York'' =
     Figure \<lparr>county_title = ''New York - Covid Deaths'',
             county_xs = [[-73, -74], [-73, -74]],
             county_ys = [[42, 43], [42, 43]],
             county_names = [''Albany'', ''Albany''],
             county_rates = [5, 3], low = 4, high = 5\<rparr> \<and>
   map geo_state [albany] = [lower ''NY'']"
  by (simp add: county_example_defs county_join_defs)

text \<open>
  Claim C10. Every exception raised in the body of \<open>deaths_by_county\<close> gives the same
  value, the pair \<^verbatim>\<open>(None, None)\<close>, and that value is not a figure. This covers a target
  without a code, a column the body reads that the county data lacks, and a state without
  geometry entries (which would leave the rate sequence empty).
\<close>

theorem failures_are_uniform:
  "(\<forall>e. deaths_by_county_try state_mapping county_geo data target = Inl e \<longrightarrow>
        deaths_by_county state_mapping county_geo data target = NonePair) \<and>
   (\<forall>p. NonePair \<noteq> Figure p) \<and>
   (filter (\<lambda>(code, nm). nm = target) state_mapping = [] \<longrightarrow>
        deaths_by_county state_mapping county_geo data target = NonePair) \<and>
   (\<forall>c \<in> {''state_name'', ''data_as_of'', ''start_week'', ''end_week'', ''county_name'',
            ''covid_death''}.
        c \<notin> set (columns data) \<longrightarrow>
        deaths_by_county state_mapping county_geo data target = NonePair) \<and>
   (filter (\<lambda>g. \<exists>(code, nm) \<in> set state_mapping. nm = target \<and> geo_state g = lower code)
        county_geo = [] \<longrightarrow>
        deaths_by_county state_mapping county_geo data target = NonePair)"
proof (intro conjI)
  show "\<forall>e. deaths_by_county_try state_mapping county_geo data target = Inl e \<longrightarrow>
        deaths_by_county state_mapping county_geo data target = NonePair"
    by (simp add: deaths_by_county_def)
  show "\<forall>p. NonePair \<noteq> Figure p" by simp
  show "filter (\<lambda>(code, nm). nm = target) state_mapping = [] \<longrightarrow>
        deaths_by_county state_mapping county_geo data target = NonePair"
    by (simp add: deaths_by_county_def deaths_by_county_try_def filter_state_def)
  show "\<forall>c \<in> {''state_name'', ''data_as_of'', ''start_week'', ''end_week'', ''county_name'',
            ''covid_death''}.
        c \<notin> set (columns data) \<longrightarrow>
        deaths_by_county state_mapping county_geo data target = NonePair"
    unfolding deaths_by_county_def deaths_by_county_try_def Let_def
    by (auto split: option.splits sum.splits)
  show "filter (\<lambda>g. \<exists>(code, nm) \<in> set state_mapping. nm = target \<and> geo_state g = lower code)
        county_geo = [] \<longrightarrow>
        deaths_by_county state_mapping county_geo data target = NonePair"
  proof
    assume empty: "filter (\<lambda>g. \<exists>(code, nm) \<in> set state_mapping.
        nm = target \<and> geo_state g = lower code) county_geo = []"
    show "deaths_by_county state_mapping county_geo data target = NonePair"
    proof (cases "deaths_by_county state_mapping county_geo data target")
      case NonePair
      then show ?thesis .
    next
      case (Figure p)
      then have "deaths_by_county_try state_mapping county_geo data target = Inr p"
        by (simp add: deaths_by_county_Figure)
      from deaths_by_county_try_Inr [OF this] obtain code nm where
        c: "filter_state (filter (\<lambda>(c, n). n = target) state_mapping) = Some (code, nm)"
           "filter (\<lambda>g. geo_state g = lower code) county_geo \<noteq> []"
        by blast
      from c(1) obtain rest where
        "filter (\<lambda>(c, n). n = target) state_mapping = (code, nm) # rest"
        by (auto simp: filter_state_def split: list.splits)
      then have "(code, nm) \<in> set (filter (\<lambda>(c, n). n = target) state_mapping)"
        by (metis list.set_intros(1))
      then have in_map: "(code, nm) \<in> set state_mapping" "nm = target" by auto
      from c(2) obtain g where "g \<in> set county_geo" "geo_state g = lower code"
        by (auto simp: filter_empty_conv)
      with in_map have "g \<in> set (filter (\<lambda>g. \<exists>(code, nm) \<in> set state_mapping.
          nm = target \<and> geo_state g = lower code) county_geo)"
        by auto
      with empty show ?thesis by simp
    qed
  qed
qed

theorem failures_are_uniform_witness:
  "filter (\<lambda>(code, nm). nm = ''Atlantis'') example_mapping = [] \<and>
   deaths_by_county_try example_mapping example_geometry example_county_data ''Atlantis'' =
     Inl TypeError \<and>
   deaths_by_county example_mapping example_geometry example_county_data ''Atlantis'' = NonePair \<and>
   ''covid_death'' \<notin> set (columns no_count_data) \<and>
   deaths_by_county_try example_mapping example_geometry no_count_data ''New York'' =
     Inl (AttributeError ''covid_death'') \<and>
   deaths_by_county example_mapping example_geometry no_count_data ''New York'' = NonePair \<and>
   filter (\<lambda>g. \<exists>(code, nm) \<in> set example_mapping. nm = ''New York'' \<and> geo_state g = lower code)
     [bergen] = [] \<and>
   deaths_by_county_try example_mapping [bergen] example_county_data ''New York'' =
     Inl (KeyError ''detailed name'') \<and>
   deaths_by_county example_mapping [bergen] example_county_data ''New York'' = NonePair"
proof -
  have a: "filter (\<lambda>(code, nm). nm = ''Atlantis'') example_mapping = []"
    by (simp add: example_mapping_def)
  have a': "deaths_by_county_try example_mapping example_geometry example_county_data
      ''Atlantis'' = Inl TypeError"
    by (simp add: county_example_defs county_join_defs)
  have b: "''covid_death'' \<notin> set (columns no_count_data)"
    by (simp add: no_count_data_def)
  have b': "deaths_by_county_try example_mapping example_geometry no_count_data ''New York'' =
      Inl (AttributeError ''covid_death'')"
    by (simp add: county_example_defs county_join_defs)
  have c: "filter (\<lambda>g. \<exists>(code, nm) \<in> set example_mapping.
      nm = ''New York'' \<and> geo_state g = lower code) [bergen] = []"
    by (simp add: county_example_defs lower_def lower_char_def)
  have c': "deaths_by_county_try example_mapping [bergen] example_county_data ''New York'' =
      Inl (KeyError ''detailed name'')"
    by (simp add: county_example_defs county_join_defs)
  from failures_are_uniform [of example_mapping example_geometry example_county_data "''Atlantis''"]
    a' have r1: "deaths_by_county example_mapping example_geometry example_county_data
      ''Atlantis'' = NonePair"
    by blast
  from failures_are_uniform [of example_mapping example_geometry no_count_data "''New York''"]
    b have r2: "deaths_by_county example_mapping example_geometry no_count_data
      ''New York'' = NonePair"
    by simp
  from failures_are_uniform [of example_mapping "[bergen]" example_county_data "''New York''"]
    c have r3: "deaths_by_county example_mapping [bergen] example_county_data
      ''New York'' = NonePair"
    by simp
  from a a' b b' c c' r1 r2 r3 show ?thesis by (intro conjI)
qed

section \<open>The claims about the state data\<close>

text \<open>
  Claim C5, as the code has it. \<open>age_by_state\<close> returns a figure and the table \<open>df_age\<close>.
  The factors of the figure's x axis are the cohorts of the filtered records in the order
  of their first appearance: of two positions of the axis, the earlier holds the cohort
  that occurs first among the filtered records. The table holds the same cohorts, each
  once, in ascending order of their labels, which is the order \<^verbatim>\<open>groupby\<close> gives.
\<close>

theorem cohort_order:
  assumes "age_by_state data target = Inr (plot, df_age)"
  shows "x_range plot =
           unique (List.map_filter age_group
             (filter (\<lambda>r. case age_group r of None \<Rightarrow> False | Some a \<Rightarrow> a \<in> set AGE_GROUPS)
                (filter (\<lambda>r. state r = target) (rows data)))) \<and>
         (\<forall>i j. i < j \<and> j < length (x_range plot) \<longrightarrow>
            length (takeWhile (\<lambda>k. k \<noteq> x_range plot ! i)
              (List.map_filter age_group
                (filter (\<lambda>r. case age_group r of None \<Rightarrow> False | Some a \<Rightarrow> a \<in> set AGE_GROUPS)
                   (filter (\<lambda>r. state r = target) (rows data))))) <
            length (takeWhile (\<lambda>k. k \<noteq> x_range plot ! j)
              (List.map_filter age_group
                (filter (\<lambda>r. case age_group r of None \<Rightarrow> False | Some a \<Rightarrow> a \<in> set AGE_GROUPS)
                   (filter (\<lambda>r. state r = target) (rows data)))))) \<and>
         map fst df_age = sort (x_range plot) \<and>
         sorted (map fst df_age) \<and> distinct (map fst df_age) \<and>
         set (map fst df_age) = set (x_range plot)"
proof -
  let ?ks = "List.map_filter age_group
      (filter (\<lambda>r. case age_group r of None \<Rightarrow> False | Some a \<Rightarrow> a \<in> set AGE_GROUPS)
         (filter (\<lambda>r. state r = target) (rows data)))"
  from age_by_state_Inr [OF assms]
  have x: "x_range plot = unique ?ks" and keys: "map fst df_age = sort (unique ?ks)"
    by (simp_all add: keys_groupby_sum)
  have first: "\<forall>i j. i < j \<and> j < length (x_range plot) \<longrightarrow>
      length (takeWhile (\<lambda>k. k \<noteq> x_range plot ! i) ?ks) <
      length (takeWhile (\<lambda>k. k \<noteq> x_range plot ! j) ?ks)"
    unfolding x using unique_first_appearance by blast
  have "sorted (map fst df_age)" "distinct (map fst df_age)"
    "set (map fst df_age) = set (x_range plot)"
    by (simp_all add: keys x distinct_unique)
  with x keys first show ?thesis by simp
qed

theorem cohort_order_witness:
  "age_by_state new_york_data ''New York'' =
     Inr (\<lparr>age_title = ''Deaths x Age - New York'',
            x_range = [''Under 1 year'', ''25-34 years'']\<rparr>,
          [(''25-34 years'', [10, 90, 4, 2, 1, 13]),
           (''Under 1 year'', [2, 50, 1, 0, 0, 3])]) \<and>
   map fst [(''25-34 years'', [10, 90, 4, 2, 1, 13 :: int]),
            (''Under 1 year'', [2, 50, 1, 0, 0, 3])] =
     sort [''Under 1 year'', ''25-34 years''] \<and>
   sorted (map fst [(''25-34 years'', [10, 90, 4, 2, 1, 13 :: int]),
                    (''Under 1 year'', [2, 50, 1, 0, 0, 3])])"
proof -
  note inst = cohort_order [OF new_york_cohorts]
  have k: "map fst [(''25-34 years'', [10, 90, 4, 2, 1, 13 :: int]),
            (''Under 1 year'', [2, 50, 1, 0, 0, 3])] =
     sort (x_range \<lparr>age_title = ''Deaths x Age - New York'',
                    x_range = [''Under 1 year'', ''25-34 years'']\<rparr>)"
    by (rule inst [THEN conjunct2, THEN conjunct2, THEN conjunct1])
  have s: "sorted (map fst [(''25-34 years'', [10, 90, 4, 2, 1, 13 :: int]),
                    (''Under 1 year'', [2, 50, 1, 0, 0, 3])])"
    by (rule inst [THEN conjunct2, THEN conjunct2, THEN conjunct2, THEN conjunct1])
  from k have "map fst [(''25-34 years'', [10, 90, 4, 2, 1, 13 :: int]),
            (''Under 1 year'', [2, 50, 1, 0, 0, 3])] =
     sort [''Under 1 year'', ''25-34 years'']"
    by (simp only: age_figure.select_convs)
  with s new_york_cohorts show ?thesis by (intro conjI)
qed

text \<open>
  The claim C5 as the specification states it fails on its own scenario: for the rows
  ``Under 1 year'' then ``25-34 years'' of New York the table lists ``25-34 years'' first.
\<close>

theorem cohort_order_counterexample:
  "age_by_state new_york_data ''New York'' =
     Inr (\<lparr>age_title = ''Deaths x Age - New York'',
            x_range = [''Under 1 year'', ''25-34 years'']\<rparr>,
          [(''25-34 years'', [10, 90, 4, 2, 1, 13]),
           (''Under 1 year'', [2, 50, 1, 0, 0, 3])])"
  by (rule new_york_cohorts)

text \<open>
  Claim C6. When the rollup filter succeeds, no row of the cleaned frame has a \<open>state\<close>
  that contains ``Total'', and the cleaned rows are exactly the other rows of the input,
  in their original order.
\<close>

theorem region_filter_no_totals:
  assumes "region_filter state_data = Inr cleaned"
  shows "(\<forall>r \<in> set (rows cleaned). \<not> (\<exists>a b. state r = a @ ''Total'' @ b)) \<and>
         rows cleaned =
           filter (\<lambda>r. \<not> (\<exists>a b. state r = a @ ''Total'' @ b)) (rows state_data) \<and>
         subseq (rows cleaned) (rows state_data) \<and>
         columns cleaned = columns state_data"
proof -
  from assms have c: "cleaned = state_data\<lparr>rows :=
      filter (\<lambda>r. \<not> str_contains ''Total'' (state r)) (rows state_data)\<rparr>"
    by (auto simp: region_filter_def split: if_splits)
  have "rows cleaned = filter (\<lambda>r. \<not> (\<exists>a b. state r = a @ ''Total'' @ b)) (rows state_data)"
    by (simp add: c str_contains_iff)
  moreover from this have "\<forall>r \<in> set (rows cleaned). \<not> (\<exists>a b. state r = a @ ''Total'' @ b)"
    by simp
  moreover have "subseq (rows cleaned) (rows state_data)" by (simp add: c)
  moreover have "columns cleaned = columns state_data" by (simp add: c)
  ultimately show ?thesis by blast
qed

theorem region_filter_no_totals_witness:
  "region_filter example_state_data =
     Inr (example_state_data\<lparr>rows := tl (rows example_state_data)\<rparr>) \<and>
   map state (rows example_state_data) =
     [''United States Total'', ''New York'', ''New York City'', ''New York'',
      ''District of Columbia'', ''New York''] \<and>
   map state (rows (example_state_data\<lparr>rows := tl (rows example_state_data)\<rparr>)) =
     [''New York'', ''New York City'', ''New York'', ''District of Columbia'', ''New York''] \<and>
   subseq (rows (example_state_data\<lparr>rows := tl (rows example_state_data)\<rparr>))
     (rows example_state_data)"
proof -
  from region_filter_no_totals [OF example_region_filter]
  have "subseq (rows (example_state_data\<lparr>rows := tl (rows example_state_data)\<rparr>))
     (rows example_state_data)"
    by blast
  moreover have "map state (rows example_state_data) =
     [''United States Total'', ''New York'', ''New York City'', ''New York'',
      ''District of Columbia'', ''New York'']"
    by (simp add: example_state_data_def)
  moreover have
    "map state (rows (example_state_data\<lparr>rows := tl (rows example_state_data)\<rparr>)) =
     [''New York'', ''New York City'', ''New York'', ''District of Columbia'', ''New York'']"
    by (simp add: example_state_data_def)
  ultimately show ?thesis using example_region_filter by (intro conjI)
qed



text \<open>
  Claim C8. When the state frame has no column \<open>state\<close>, the rollup filter raises
  \<^verbatim>\<open>KeyError\<close> and so does \<open>index\<close>: the request produces no page.
\<close>

theorem missing_state_column_raises:
  assumes "''state'' \<notin> set (columns state_data)"
  shows "region_filter state_data = Inl (KeyError ''state'') \<and>
         index state_mapping county_geo arg state_data county_data = Inl (KeyError ''state'')"
  using assms by (simp add: region_filter_def index_def)

theorem missing_state_column_raises_witness:
  "''state'' \<notin> set (columns no_state_data) \<and>
   rows no_state_data = rows example_state_data \<and>
   region_filter no_state_data = Inl (KeyError ''state'') \<and>
   index example_mapping example_geometry None no_state_data example_county_data =
     Inl (KeyError ''state'')"
proof -
  have h: "''state'' \<notin> set (columns no_state_data)" by (simp add: no_state_data_def)
  have r: "rows no_state_data = rows example_state_data" by (simp add: no_state_data_def)
  from missing_state_column_raises [OF h, of example_mapping example_geometry None
      example_county_data] h r
  show ?thesis by (intro conjI) simp_all
qed

text \<open>
  Claim C9, as the code has it. The list of states handed to the page never contains
  ``New York City'', the one name the handler removes after the rollup filter. No other
  name is removed: the list holds the \<open>state\<close> of every other row of the cleaned frame.
\<close>

theorem selectable_states_without_new_york_city:
  "''New York City'' \<notin> set (selectable_states cleaned) \<and>
   set (selectable_states cleaned) = set (map state (rows cleaned)) - {''New York City''} \<and>
   (\<forall>pg. index state_mapping county_geo arg state_data county_data = Inr pg \<longrightarrow>
         ''New York City'' \<notin> set (states pg))"
proof -
  have a: "\<And>c. ''New York City'' \<notin> set (selectable_states c)"
    by (simp add: selectable_states_def)
  have b: "set (selectable_states cleaned) = set (map state (rows cleaned)) - {''New York City''}"
    by (auto simp: selectable_states_def)
  have "''New York City'' \<notin> set (states pg)"
    if "index state_mapping county_geo arg state_data county_data = Inr pg" for pg
    using index_Inr [OF that] a by auto
  with a b show ?thesis by blast
qed

theorem selectable_states_without_new_york_city_witness:
  "index example_mapping example_geometry None example_state_data example_county_data =
     Inr \<lparr>state_plot = \<lparr>age_title = ''Deaths x Age - New York'', x_range = [''25-34 years'']\<rparr>,
          df = [(''25-34 years'', [10, 100, 5, 2, 2, 15])],
          county_plot = Figure example_figure,
          current_state = ''New York'',
          states = [''New York'', ''New York'', ''District of Columbia'', ''New York'']\<rparr> \<and>
   ''New York City'' \<in> set (map state (rows example_state_data)) \<and>
   ''New York City'' \<notin>
     set (states
       \<lparr>state_plot = \<lparr>age_title = ''Deaths x Age - New York'', x_range = [''25-34 years'']\<rparr>,
        df = [(''25-34 years'', [10, 100, 5, 2, 2, 15])],
        county_plot = Figure example_figure,
        current_state = ''New York'',
        states = [''New York'', ''New York'', ''District of Columbia'', ''New York'']\<rparr>)"
proof -
  have inp: "''New York City'' \<in> set (map state (rows example_state_data))"
    by (simp add: example_state_data_def)
  from selectable_states_without_new_york_city
    [of example_state_data example_mapping example_geometry None example_state_data
      example_county_data]
  have "\<forall>pg. index example_mapping example_geometry None example_state_data
      example_county_data = Inr pg \<longrightarrow> ''New York City'' \<notin> set (states pg)"
    by blast
  with example_index_default inp show ?thesis by blast
qed

text \<open>
  The claim C9 as the specification states it names the pseudo-region of the national
  capital. In the state data that is ``District of Columbia'', which the handler keeps:
  on the example frame the list handed to the page contains it.
\<close>

theorem selectable_states_counterexample:
  "index example_mapping example_geometry None example_state_data example_county_data =
     Inr \<lparr>state_plot = \<lparr>age_title = ''Deaths x Age - New York'', x_range = [''25-34 years'']\<rparr>,
          df = [(''25-34 years'', [10, 100, 5, 2, 2, 15])],
          county_plot = Figure example_figure,
          current_state = ''New York'',
          states = [''New York'', ''New York'', ''District of Columbia'', ''New York'']\<rparr> \<and>
   ''District of Columbia'' \<in>
     set [''New York'', ''New York'', ''District of Columbia'', ''New York'']"
  using example_index_default by simp

end
